theory Spec2Isabelle
  imports Main "HOL-Library.AList" "HOL-Library.Sublist" "HOL-Library.Char_ord" "HOL-Library.List_Lexorder"
begin

text \<open>
  A model of the package \<open>rest\<close>: the request builder with \<open>wrapURL\<close>, \<open>tryOnce\<close> and
  \<open>Do\<close> of \<open>request.go\<close>, the client with its verb factories, and both revisions of
  \<open>result\<close> with \<open>Into\<close> and \<open>StatusCode\<close>. A method with a pointer receiver takes the
  struct and returns it as the call leaves it; the network is a transport, a function
  from the requests dispatched so far and the next request to an error or a response.
\<close>

section \<open>Values the REST client handles\<close>

text \<open>
  Go \<open>error\<close> values. \<open>isConnectionReset\<close> inspects the dynamic type of an error, so the
  wrappers it looks through are constructors of their own: \<open>*url.Error\<close> (fields Op, URL,
  Err), \<open>*net.OpError\<close> (field Err), \<open>*os.SyscallError\<close> (fields Syscall, Err) and
  \<open>syscall.Errno\<close>. \<open>errors.New(s)\<close> is \<open>ErrorNew s\<close>; \<open>fmt.Errorf(format, args...)\<close> is
  \<open>Errorf format args\<close>, the error determined by its format and arguments; any other
  error of a library (JSON, I/O) is \<open>LibError\<close> with its message.
\<close>

datatype err =
    UrlError string string err
  | OpError err
  | SyscallError string err
  | Errno nat
  | ErrUnexpectedEOF
  | ErrorNew string
  | Errorf string "fmtarg list"
  | LibError string
and fmtarg = ArgInt int | ArgStr string | ArgErr err

text \<open>\<open>syscall.ECONNRESET\<close> (0x68 on Linux).\<close>

definition ECONNRESET :: nat where
  "ECONNRESET = 104"

text \<open>A byte slice; \<open>nil\<close> and \<open>[]byte("")\<close> are both the empty list (the code only
  reads them through \<open>len\<close> and \<open>bytes.NewReader\<close>).\<close>

type_synonym bytes = string

text \<open>Go values passed as \<open>interface{}\<close>: request bodies and format arguments.\<close>

datatype goval =
    IntV int
  | StrV string
  | BoolV bool
  | NaNV
  | ChanV

text \<open>The target of a decode, \<open>obj interface{}\<close>: the shape (Go type) the caller wants the
  body decoded into.\<close>

datatype shape = IntT | StringT | BoolT | ListT shape | AnyT

section \<open>Result (both revisions)\<close>

text \<open>The current \<open>result\<close> struct: the one \<open>request.Do\<close> and \<open>tryOnce\<close> fill (body,
  err, statusCode).\<close>

record result =
  body :: bytes
  err :: "err option"
  statusCode :: int

text \<open>The earlier \<open>result\<close> struct, with the status line.\<close>

record result_v1 =
  body1 :: bytes
  err1 :: "err option"
  statusCode1 :: int
  status1 :: string

text \<open>\<open>&result{}\<close>.\<close>

definition new_result :: result where
  "new_result = \<lparr>body = [], err = None, statusCode = 0\<rparr>"

definition StatusOK :: int where
  "StatusOK = 200"

text \<open>
  \<open>json.NewDecoder(bytes.NewReader(b)).Decode(obj)\<close> is the standard library's; it is a
  parameter \<open>dec\<close> of the model: from the bytes and the target's shape, the error or the
  value stored through \<open>obj\<close>.
\<close>

type_synonym json_decode = "bytes \<Rightarrow> shape \<Rightarrow> err + goval"

text \<open>
  \<open>Into\<close> of the current revision. The receiver is a pointer, so the model returns the
  receiver as it is after the call; then the returned error (\<open>None\<close> is \<open>nil\<close>) and the
  value decoded into the target (\<open>None\<close>: nothing was decoded, the target is untouched).
\<close>

definition Into :: "json_decode \<Rightarrow> result \<Rightarrow> shape option \<Rightarrow> result \<times> err option \<times> goval option" where
  "Into dec r obj =
     (case err r of
        Some e \<Rightarrow> (r, Some e, None)
      | None \<Rightarrow>
          (case obj of
             None \<Rightarrow> (r, None, None)
           | Some t \<Rightarrow>
               if length (body r) = 0
               then (r, Some (Errorf ''empty response body with status code: %d'' [ArgInt (statusCode r)]), None)
               else (case dec (body r) t of
                       Inl e \<Rightarrow> (r, Some (Errorf ''decode response body error: %v'' [ArgErr e]), None)
                     | Inr v \<Rightarrow> (r, None, Some v))))"

text \<open>\<open>Into\<close> of the earlier revision, which rejects every status but 200 first.\<close>

definition Into_v1 :: "json_decode \<Rightarrow> result_v1 \<Rightarrow> shape option \<Rightarrow> result_v1 \<times> err option \<times> goval option" where
  "Into_v1 dec r obj =
     (case err1 r of
        Some e \<Rightarrow> (r, Some e, None)
      | None \<Rightarrow>
          if statusCode1 r \<noteq> StatusOK
          then (r, Some (Errorf ''http response with status: %s'' [ArgStr (status1 r)]), None)
          else (case obj of
                  None \<Rightarrow> (r, None, None)
                | Some t \<Rightarrow>
                    (case dec (body1 r) t of
                       Inl e \<Rightarrow> (r, Some (Errorf ''http response body decode error: %v, raw data: %s''
                                              [ArgErr e, ArgStr (body1 r)]), None)
                     | Inr v \<Rightarrow> (r, None, Some v))))"

text \<open>
  \<open>StatusCode(statusCode *int)\<close>. A pointer to an int is \<open>nil\<close>, a cell of the caller's
  memory, or the address of the receiver's \<open>statusCode\<close> field. The assignment
  \<open>statusCode = &r.statusCode\<close> rebinds the parameter, a local variable. The model returns
  the receiver, the final value of the parameter (\<open>p\<close> here, \<open>statusCode\<close> in the
  source) and the caller's memory.
\<close>

datatype intptr = NilPtr | Cell nat | ResultStatusCodeField

type_synonym intstore = "nat \<Rightarrow> int"

definition StatusCode :: "result \<Rightarrow> intptr \<Rightarrow> intstore \<Rightarrow> result \<times> intptr \<times> intstore" where
  "StatusCode r p mem =
     (let p' = (if p \<noteq> NilPtr then ResultStatusCodeField else p)
      in (r, p', mem))"

section \<open>Multimaps: \<open>url.Values\<close> and \<open>http.Header\<close>\<close>

text \<open>
  Both are \<open>map[string][]string\<close>. The keys have to be enumerated (\<open>range\<close>, \<open>Encode\<close>),
  so a map is an association list; every operation below keeps at most one entry for a key.
  \<open>mm_get m k\<close> is \<open>m[k]\<close> (\<open>nil\<close>, the empty list, for a missing key) and \<open>mm_put m k vs\<close>
  is \<open>m[k] = vs\<close>.
\<close>

type_synonym multimap = "(string \<times> string list) list"

definition mm_get :: "multimap \<Rightarrow> string \<Rightarrow> string list" where
  "mm_get m k = (case map_of m k of None \<Rightarrow> [] | Some vs \<Rightarrow> vs)"

definition mm_put :: "multimap \<Rightarrow> string \<Rightarrow> string list \<Rightarrow> multimap" where
  "mm_put m k vs = AList.update k vs m"

text \<open>\<open>Values.Add\<close>: \<open>v[key] = append(v[key], value)\<close>; \<open>Values.Set\<close>: \<open>v[key] = []string{value}\<close>.\<close>

definition Values_Add :: "multimap \<Rightarrow> string \<Rightarrow> string \<Rightarrow> multimap" where
  "Values_Add m k v = mm_put m k (mm_get m k @ [v])"

definition Values_Set :: "multimap \<Rightarrow> string \<Rightarrow> string \<Rightarrow> multimap" where
  "Values_Set m k v = mm_put m k [v]"

text \<open>
  \<open>url.QueryEscape\<close>: letters, digits and \<open>- _ . ~\<close> stay, a space becomes \<open>+\<close>, every
  other byte becomes \<open>%XX\<close> in upper-case hexadecimal.
\<close>

definition shouldEscape :: "char \<Rightarrow> bool" where
  "shouldEscape c =
     (let n = (of_char c :: nat)
      in \<not> ((97 \<le> n \<and> n \<le> 122) \<or> (65 \<le> n \<and> n \<le> 90) \<or> (48 \<le> n \<and> n \<le> 57)
             \<or> c \<in> set ''-_.~''))"

definition upperhex :: string where
  "upperhex = ''0123456789ABCDEF''"

definition escape_byte :: "char \<Rightarrow> string" where
  "escape_byte c =
     (if \<not> shouldEscape c then [c]
      else if c = CHR '' '' then ''+''
      else [CHR ''%'', upperhex ! ((of_char c :: nat) div 16), upperhex ! ((of_char c :: nat) mod 16)])"

definition QueryEscape :: "string \<Rightarrow> string" where
  "QueryEscape s = concat (map escape_byte s)"

text \<open>\<open>strings.Join\<close>.\<close>

fun join :: "string \<Rightarrow> string list \<Rightarrow> string" where
  "join sep [] = []"
| "join sep [x] = x"
| "join sep (x # y # ys) = x @ sep @ join sep (y # ys)"

text \<open>
  \<open>Values.Encode\<close>: the keys sorted (bytewise, as Go compares strings), and for each key,
  in order, each of its values as \<open>key=value\<close>, both escaped, separated by \<open>&\<close>.
\<close>

definition encode_pairs :: "multimap \<Rightarrow> string list" where
  "encode_pairs m =
     concat (map (\<lambda>(k, vs). map (\<lambda>v. QueryEscape k @ ''='' @ QueryEscape v) vs) (sort_key fst m))"

definition Values_Encode :: "multimap \<Rightarrow> string" where
  "Values_Encode m = join ''&'' (encode_pairs m)"

text \<open>
  \<open>Header.Set\<close> and \<open>Header.Del\<close>, for a key already in canonical form (as all the literal
  keys of \<open>tryOnce\<close> and \<open>SetBasicAuth\<close> are, so that canonicalisation returns them as
  they are).
\<close>

definition Header_Set :: "multimap \<Rightarrow> string \<Rightarrow> string \<Rightarrow> multimap" where
  "Header_Set h k v = mm_put h k [v]"

definition Header_Del :: "multimap \<Rightarrow> string \<Rightarrow> multimap" where
  "Header_Del h k = AList.delete k h"

text \<open>
  \<open>Request.SetBasicAuth\<close> of net/http sets \<open>Authorization\<close> to \<open>Basic\<close> and the standard
  base64 encoding of \<open>username:password\<close>.
\<close>

definition b64_alphabet :: string where
  "b64_alphabet = ''ABCDEFGHIJKLMNOPQRSTUVWXYZabcdefghijklmnopqrstuvwxyz0123456789+/''"

definition b64_char :: "nat \<Rightarrow> char" where
  "b64_char n = b64_alphabet ! n"

fun b64_encode :: "nat list \<Rightarrow> string" where
  "b64_encode (a # b # c # rest) =
     [b64_char (a div 4), b64_char ((a mod 4) * 16 + b div 16),
      b64_char ((b mod 16) * 4 + c div 64), b64_char (c mod 64)] @ b64_encode rest"
| "b64_encode [a, b] =
     [b64_char (a div 4), b64_char ((a mod 4) * 16 + b div 16), b64_char ((b mod 16) * 4), CHR ''='']"
| "b64_encode [a] = [b64_char (a div 4), b64_char ((a mod 4) * 16), CHR ''='', CHR ''='']"
| "b64_encode [] = []"

definition basicAuth :: "string \<Rightarrow> string \<Rightarrow> string" where
  "basicAuth username password = b64_encode (map of_char (username @ '':'' @ password))"

definition SetBasicAuth :: "multimap \<Rightarrow> string \<Rightarrow> string \<Rightarrow> multimap" where
  "SetBasicAuth h username password =
     Header_Set h ''Authorization'' (''Basic '' @ basicAuth username password)"

section \<open>The request builder\<close>

text \<open>
  A \<open>context.Context\<close>: the background context, one supplied by the caller, one derived
  with a timeout (nanoseconds), or a context whose cancel function has been called.
\<close>

datatype gocontext = Background | CallerContext nat | WithTimeout gocontext int | Canceled gocontext

text \<open>A \<open>url.URL\<close>; the code writes \<open>Path\<close> and \<open>RawQuery\<close> only.\<close>

record url =
  Scheme :: string
  Host :: string
  Path :: string
  RawQuery :: string
  Fragment :: string

text \<open>\<open>&url.URL{}\<close>, \<open>new(url.URL)\<close>.\<close>

definition empty_url :: url where
  "empty_url = \<lparr>Scheme = [], Host = [], Path = [], RawQuery = [], Fragment = []\<rparr>"

text \<open>The wire request handed to the transport, and what the transport answers.\<close>

record wire =
  w_method :: string
  w_url :: string
  w_body :: bytes
  w_header :: multimap
  w_ctx :: gocontext

text \<open>
  A response: its status code and its body, which is absent (\<open>resp.Body == nil\<close>), or which
  \<open>ioutil.ReadAll\<close> reads with an error or to the end.
\<close>

record response =
  resp_StatusCode :: int
  resp_Body :: "(err + bytes) option"

text \<open>
  \<open>client.Do\<close>: a transport answers a wire request, knowing the requests dispatched
  before it. The world outside the program is the list of the requests dispatched so far.
\<close>

type_synonym world = "wire list"

type_synonym transport = "world \<Rightarrow> wire \<Rightarrow> err + response"

text \<open>
  The functions of Go's standard library that the code calls and whose results it only
  passes on: \<open>url.Parse\<close>, \<open>URL.String\<close>, \<open>fmt.Sprintf\<close>, \<open>json.Marshal\<close>,
  \<open>Duration.String\<close>, the error of \<open>http.NewRequest\<close> for a method and a URL (if any),
  \<open>http.DefaultClient\<close> and \<open>textproto.CanonicalMIMEHeaderKey\<close>.
\<close>

record lib =
  url_Parse :: "string \<Rightarrow> err + url"
  url_String :: "url \<Rightarrow> string"
  fmt_Sprintf :: "string \<Rightarrow> goval list \<Rightarrow> string"
  json_Marshal :: "goval \<Rightarrow> err + bytes"
  Duration_String :: "int \<Rightarrow> string"
  http_NewRequest :: "string \<Rightarrow> string \<Rightarrow> err option"
  DefaultClient :: transport
  CanonicalMIMEHeaderKey :: "string \<Rightarrow> string"

text \<open>The \<open>request\<close> struct (\<open>r_method\<close> is its field \<open>method\<close>). Durations are in
  nanoseconds; \<open>retryCount\<close> is a Go \<open>int\<close>.\<close>

record request =
  client :: "transport option"
  r_method :: string
  params :: "multimap option"
  header :: "multimap option"
  body :: bytes
  ctx :: "gocontext option"
  baseURL :: string
  subPath :: string
  subPathArgs :: "goval list"
  retryCount :: int
  retryInterval :: int
  timeout :: int
  username :: string
  password :: string
  err :: "err option"

definition MethodGet :: string where
  "MethodGet = ''GET''"

definition MethodPost :: string where
  "MethodPost = ''POST''"

text \<open>The client: \<open>NewClient\<close>, \<open>SetBasicAuth\<close> and the verb factories. A client on which
  \<open>SetBasicAuth\<close> was never called has the empty username and password.\<close>

record restClient =
  rc_client :: "transport option"
  rc_baseURL :: string
  rc_username :: string
  rc_password :: string

definition NewClient :: "transport option \<Rightarrow> string \<Rightarrow> restClient" where
  "NewClient c base = \<lparr>rc_client = c, rc_baseURL = base, rc_username = [], rc_password = []\<rparr>"

definition Client_SetBasicAuth :: "restClient \<Rightarrow> string \<Rightarrow> string \<Rightarrow> restClient" where
  "Client_SetBasicAuth rc user pass = rc\<lparr>rc_username := user, rc_password := pass\<rparr>"

text \<open>\<open>restClient.method\<close>: the request every verb factory returns; the fields it does not
  name have their zero values.\<close>

definition new_request :: "restClient \<Rightarrow> string \<Rightarrow> request" where
  "new_request rc m =
     \<lparr>client = rc_client rc, r_method = m, params = None, header = None, body = [], ctx = None,
      baseURL = rc_baseURL rc, subPath = [], subPathArgs = [], retryCount = 0, retryInterval = 0,
      timeout = 0, username = rc_username rc, password = rc_password rc, err = None\<rparr>"

definition Get :: "restClient \<Rightarrow> request" where
  "Get rc = new_request rc MethodGet"

definition Post :: "restClient \<Rightarrow> request" where
  "Post rc = new_request rc MethodPost"

definition Put :: "restClient \<Rightarrow> request" where
  "Put rc = new_request rc ''PUT''"

definition Delete :: "restClient \<Rightarrow> request" where
  "Delete rc = new_request rc ''DELETE''"

definition Patch :: "restClient \<Rightarrow> request" where
  "Patch rc = new_request rc ''PATCH''"

text \<open>\<open>r.params\<close> as a map, after \<open>if r.params == nil { r.params = make(url.Values) }\<close>.\<close>

definition params_map :: "request \<Rightarrow> multimap" where
  "params_map r = (case params r of None \<Rightarrow> [] | Some m \<Rightarrow> m)"

definition WithParam :: "request \<Rightarrow> string \<Rightarrow> string \<Rightarrow> request" where
  "WithParam r name v =
     (let m = params_map r
      in r\<lparr>params := Some (mm_put m name (mm_get m name @ [v]))\<rparr>)"

text \<open>\<open>WithParams\<close> ranges over a \<open>map[string]string\<close>, given as the list of its entries.\<close>

definition WithParams :: "request \<Rightarrow> (string \<times> string) list \<Rightarrow> request" where
  "WithParams r ps =
     r\<lparr>params := Some (foldl (\<lambda>m (name, v). mm_put m name (mm_get m name @ [v])) (params_map r) ps)\<rparr>"

text \<open>\<open>Header.Add\<close> canonicalises the key. (The first \<open>WithHeader\<close> adopts the caller's
  map itself; the model has its value, no statement below depends on the sharing.)\<close>

definition Header_Add :: "lib \<Rightarrow> multimap \<Rightarrow> string \<Rightarrow> string \<Rightarrow> multimap" where
  "Header_Add L h k v =
     (let ck = CanonicalMIMEHeaderKey L k in mm_put h ck (mm_get h ck @ [v]))"

definition WithHeader :: "lib \<Rightarrow> request \<Rightarrow> multimap option \<Rightarrow> request" where
  "WithHeader L r hdr =
     (case header r of
        None \<Rightarrow> r\<lparr>header := hdr\<rparr>
      | Some h \<Rightarrow>
          r\<lparr>header := Some (foldl (\<lambda>h1 (key, vs). foldl (\<lambda>h2 v. Header_Add L h2 key v) h1 vs) h
                                  (case hdr of None \<Rightarrow> [] | Some m \<Rightarrow> m))\<rparr>)"

definition WithContext :: "request \<Rightarrow> gocontext option \<Rightarrow> request" where
  "WithContext r c = r\<lparr>ctx := c\<rparr>"

definition WithTimeout_req :: "request \<Rightarrow> int \<Rightarrow> request" where
  "WithTimeout_req r d = r\<lparr>timeout := d\<rparr>"

definition WithMaxRetry :: "request \<Rightarrow> int \<Rightarrow> request" where
  "WithMaxRetry r n = r\<lparr>retryCount := n\<rparr>"

definition WithRetryInterval :: "request \<Rightarrow> int \<Rightarrow> request" where
  "WithRetryInterval r d = r\<lparr>retryInterval := d\<rparr>"

definition subResource :: "request \<Rightarrow> string \<Rightarrow> request" where
  "subResource r sp = r\<lparr>subPath := dropWhile (\<lambda>c. c = CHR ''/'') sp\<rparr>"

definition SubResourcef :: "request \<Rightarrow> string \<Rightarrow> goval list \<Rightarrow> request" where
  "SubResourcef r sp args = subResource (r\<lparr>subPathArgs := args\<rparr>) sp"

text \<open>\<open>Body\<close>: \<open>None\<close> is the \<open>nil\<close> interface.\<close>

definition Body :: "lib \<Rightarrow> request \<Rightarrow> goval option \<Rightarrow> request" where
  "Body L r b =
     (case b of
        None \<Rightarrow> r\<lparr>body := []\<rparr>
      | Some v \<Rightarrow>
          (case json_Marshal L v of
             Inl e \<Rightarrow> r\<lparr>err := Some e, body := []\<rparr>
           | Inr data \<Rightarrow> r\<lparr>body := data\<rparr>))"

section \<open>URL composition\<close>

text \<open>
  The query of \<open>wrapURL\<close>: every value of every parameter added to an empty \<open>url.Values\<close>
  (the entries of \<open>r.params\<close> in the order of the list; \<open>Encode\<close> sorts the keys), then
  \<open>timeout\<close> set when a timeout is configured.
\<close>

definition wrapURL_query :: "lib \<Rightarrow> request \<Rightarrow> multimap" where
  "wrapURL_query L r =
     (let query = foldl (\<lambda>q (key, vs). foldl (\<lambda>q' v. Values_Add q' key v) q vs) [] (params_map r)
      in if timeout r \<noteq> 0 then Values_Set query ''timeout'' (Duration_String L (timeout r))
         else query)"

text \<open>\<open>wrapURL\<close> returns the URL and the request, whose \<open>err\<close> it sets when the base URL
  does not parse.\<close>

definition wrapURL :: "lib \<Rightarrow> request \<Rightarrow> url \<times> request" where
  "wrapURL L r =
     (case (if length (baseURL r) \<noteq> 0 then url_Parse L (baseURL r) else Inr empty_url) of
        Inl e \<Rightarrow> (empty_url, r\<lparr>err := Some e\<rparr>)
      | Inr finalUrl \<Rightarrow>
          (let p = (if length (subPathArgs r) > 0
                    then Path finalUrl @ fmt_Sprintf L (subPath r) (subPathArgs r)
                    else Path finalUrl @ subPath r)
           in (finalUrl\<lparr>Path := p, RawQuery := Values_Encode (wrapURL_query L r)\<rparr>, r)))"

section \<open>One attempt and the retry loop\<close>

definition isConnectionReset :: "err \<Rightarrow> bool" where
  "isConnectionReset e =
     (let e1 = (case e of UrlError _ _ x \<Rightarrow> x | _ \<Rightarrow> e);
          e2 = (case e1 of OpError x \<Rightarrow> x | _ \<Rightarrow> e1);
          e3 = (case e2 of SyscallError _ x \<Rightarrow> x | _ \<Rightarrow> e2)
      in case e3 of Errno n \<Rightarrow> n = ECONNRESET | _ \<Rightarrow> False)"

text \<open>The header of the wire request: lines 220 to 230 of \<open>tryOnce\<close>.\<close>

definition tryOnce_header :: "request \<Rightarrow> multimap" where
  "tryOnce_header r =
     (let h0 = (case header r of None \<Rightarrow> [] | Some h \<Rightarrow> h);
          h1 = Header_Del h0 ''Accept-Encoding'';
          h2 = Header_Set h1 ''Content-Type'' ''application/json'';
          h3 = Header_Set h2 ''Accept'' ''application/json'';
          h4 = Header_Set h3 ''Accept-Charset'' ''utf-8''
      in SetBasicAuth h4 (username r) (password r))"

text \<open>\<open>r.client\<close>, or \<open>http.DefaultClient\<close> when it is \<open>nil\<close>.\<close>

definition the_client :: "lib \<Rightarrow> request \<Rightarrow> transport" where
  "the_client L r = (case client r of None \<Rightarrow> DefaultClient L | Some c \<Rightarrow> c)"

text \<open>
  Lines 206 to 214 of \<open>tryOnce\<close>: with a positive timeout, \<open>r.ctx\<close> becomes a context
  derived from it (or from the background context) with that timeout.
\<close>

definition derive_ctx :: "request \<Rightarrow> request" where
  "derive_ctx r =
     (if timeout r > 0
      then r\<lparr>ctx := Some (WithTimeout (case ctx r of None \<Rightarrow> Background | Some c \<Rightarrow> c) (timeout r))\<rparr>
      else r)"

text \<open>The deferred \<open>cancelFn\<close>: on return, the derived context that \<open>r.ctx\<close> holds is
  cancelled.\<close>

definition run_cancelFn :: "request \<Rightarrow> request" where
  "run_cancelFn r = (if timeout r > 0 then r\<lparr>ctx := map_option Canceled (ctx r)\<rparr> else r)"

text \<open>
  Lines 237 to 265 of \<open>tryOnce\<close>: from the method and what \<open>client.Do\<close> returned, the
  result and the retry flag.
\<close>

definition classify :: "string \<Rightarrow> err + response \<Rightarrow> result \<times> bool" where
  "classify m outcome =
     (let rt = new_result
      in case outcome of
           Inl e \<Rightarrow>
             if \<not> isConnectionReset e \<or> m \<noteq> MethodGet
             then (rt\<lparr>result.err := Some e\<rparr>, False)
             else (rt, True)
         | Inr resp \<Rightarrow>
             (case resp_Body resp of
                None \<Rightarrow> (rt\<lparr>result.body := [], statusCode := resp_StatusCode resp\<rparr>, False)
              | Some (Inl e) \<Rightarrow>
                  if e = ErrUnexpectedEOF then (rt, True)
                  else (rt\<lparr>result.err := Some e\<rparr>, False)
              | Some (Inr data) \<Rightarrow>
                  (rt\<lparr>result.body := data, statusCode := resp_StatusCode resp\<rparr>, False)))"

text \<open>
  \<open>tryOnce\<close> returns the result, the retry flag, the request as the attempt leaves it
  (\<open>err\<close> from \<open>wrapURL\<close>, \<open>ctx\<close> replaced by the derived context, cancelled on return) and
  the world, with the wire request appended when \<open>client.Do\<close> was called.
\<close>

definition tryOnce :: "lib \<Rightarrow> request \<Rightarrow> world \<Rightarrow> result \<times> bool \<times> request \<times> world" where
  "tryOnce L r w =
     (let (fu, r1) = wrapURL L r;
          u = url_String L fu
      in case http_NewRequest L (r_method r1) u of
           Some e \<Rightarrow> (new_result\<lparr>result.err := Some e\<rparr>, False, r1, w)
         | None \<Rightarrow>
             (let r2 = derive_ctx r1;
                  req = \<lparr>w_method = r_method r2, w_url = u, w_body = body r2,
                         w_header = tryOnce_header r2,
                         w_ctx = (case ctx r2 of None \<Rightarrow> Background | Some c \<Rightarrow> c)\<rparr>;
                  (rt, retry) = classify (r_method r2) (the_client L r2 w req)
              in (rt, retry, run_cancelFn r2, w @ [req])))"

text \<open>
  The retry loop of \<open>Do\<close>: \<open>for try := 0; try < r.retryCount; try++\<close>, with \<open>n\<close> for
  \<open>try\<close> and \<open>rt\<close> the result of the last attempt. (A Go \<open>int\<close> has 64 bits; \<open>n\<close> stays
  below \<open>r.retryCount\<close>, so the increment never wraps.)
\<close>

function Do_loop :: "lib \<Rightarrow> int \<Rightarrow> result \<Rightarrow> request \<Rightarrow> world \<Rightarrow> result \<times> request \<times> world" where
  "Do_loop L n rt r w =
     (if n < retryCount r
      then (case tryOnce L r w of
              (rt', retry, r', w') \<Rightarrow>
                if \<not> retry then (rt', r', w') else Do_loop L (n + 1) rt' r' w')
      else (rt\<lparr>result.err := Some (ErrorNew ''unexpected error'')\<rparr>, r, w))"
  by pat_completeness auto
termination
  apply (relation "measure (\<lambda>(L, n, rt, r, w). nat (retryCount r - n))")
   apply simp
  apply (auto simp: tryOnce_def wrapURL_def derive_ctx_def run_cancelFn_def Let_def
        split: sum.splits option.splits if_splits prod.splits)
  done

declare Do_loop.simps [simp del]

text \<open>\<open>Do\<close> returns the Result, the request as the call leaves it, and the world.\<close>

definition Do :: "lib \<Rightarrow> request \<Rightarrow> world \<Rightarrow> result \<times> request \<times> world" where
  "Do L r w =
     (case err r of
        Some e \<Rightarrow> (new_result\<lparr>result.err := Some e\<rparr>, r, w)
      | None \<Rightarrow>
          (case tryOnce L r w of
             (rt, retry, r1, w1) \<Rightarrow>
               if \<not> retry then (rt, r1, w1) else Do_loop L 0 rt r1 w1))"

text \<open>The number of times \<open>client.Do\<close> is called during a call of \<open>Do\<close> from world \<open>w\<close>.\<close>

definition attempts :: "lib \<Rightarrow> request \<Rightarrow> world \<Rightarrow> nat" where
  "attempts L r w = length (snd (snd (Do L r w))) - length w"

text \<open>
  What the transport answers in the attempt \<open>tryOnce L r w\<close>: the value of \<open>client.Do\<close>
  at line 237, or \<open>None\<close> when the attempt ends before it (\<open>http.NewRequest\<close> failed).
\<close>

definition tryOnce_sent :: "lib \<Rightarrow> request \<Rightarrow> world \<Rightarrow> (err + response) option" where
  "tryOnce_sent L r w =
     (let (fu, r1) = wrapURL L r;
          u = url_String L fu
      in case http_NewRequest L (r_method r1) u of
           Some e \<Rightarrow> None
         | None \<Rightarrow>
             (let r2 = derive_ctx r1;
                  req = \<lparr>w_method = r_method r2, w_url = u, w_body = body r2,
                         w_header = tryOnce_header r2,
                         w_ctx = (case ctx r2 of None \<Rightarrow> Background | Some c \<Rightarrow> c)\<rparr>
              in Some (the_client L r2 w req)))"

text \<open>
  The answers of the transport, attempt by attempt, in the execution \<open>Do L r w\<close>: one
  entry for each call of \<open>tryOnce\<close> that \<open>Do\<close> makes, in order (none when \<open>r.err\<close> is set).
  \<open>Do_loop_answers\<close> follows the retry loop as \<open>Do_loop\<close> does.
\<close>

function Do_loop_answers :: "lib \<Rightarrow> int \<Rightarrow> request \<Rightarrow> world \<Rightarrow> (err + response) option list" where
  "Do_loop_answers L n r w =
     (if n < retryCount r
      then (case tryOnce L r w of
              (rt', retry, r', w') \<Rightarrow>
                tryOnce_sent L r w # (if \<not> retry then [] else Do_loop_answers L (n + 1) r' w'))
      else [])"
  by pat_completeness auto
termination
  apply (relation "measure (\<lambda>(L, n, r, w). nat (retryCount r - n))")
   apply simp
  apply (auto simp: tryOnce_def wrapURL_def derive_ctx_def run_cancelFn_def Let_def
        split: sum.splits option.splits if_splits prod.splits)
  done

declare Do_loop_answers.simps [simp del]

definition Do_answers :: "lib \<Rightarrow> request \<Rightarrow> world \<Rightarrow> (err + response) option list" where
  "Do_answers L r w =
     (case err r of
        Some e \<Rightarrow> []
      | None \<Rightarrow>
          (case tryOnce L r w of
             (rt, retry, r1, w1) \<Rightarrow>
               tryOnce_sent L r w # (if \<not> retry then [] else Do_loop_answers L 0 r1 w1)))"

text \<open>The transport was reached and yielded a connection-reset error.\<close>

definition is_reset :: "(err + response) option \<Rightarrow> bool" where
  "is_reset a = (case a of Some (Inl e) \<Rightarrow> isConnectionReset e | _ \<Rightarrow> False)"

section \<open>Predicates used in the statements\<close>

text \<open>\<open>r'\<close> is \<open>r\<close> up to the two fields an attempt writes, \<open>ctx\<close> and \<open>err\<close>.\<close>

definition same_config :: "request \<Rightarrow> request \<Rightarrow> bool" where
  "same_config r r' \<longleftrightarrow> r' = r\<lparr>ctx := ctx r', err := err r'\<rparr>"

text \<open>The scenario of the specification: \<open>withParam("limit","10")\<close>, then
  \<open>withParam("limit","20")\<close>.\<close>

definition limit_request :: "request \<Rightarrow> request" where
  "limit_request r = WithParam (WithParam r ''limit'' ''10'') ''limit'' ''20''"

text \<open>
  The builder operations, as data, so that a statement can range over every sequence of
  them: \<open>apply_op\<close> performs one. \<open>body_fails\<close> holds of a \<open>Body\<close> call whose value does
  not serialise.
\<close>

datatype op =
    OpWithParam string string
  | OpWithParams "(string \<times> string) list"
  | OpWithHeader "multimap option"
  | OpWithContext "gocontext option"
  | OpWithTimeout int
  | OpWithMaxRetry int
  | OpWithRetryInterval int
  | OpSubResourcef string "goval list"
  | OpBody "goval option"

fun apply_op :: "lib \<Rightarrow> request \<Rightarrow> op \<Rightarrow> request" where
  "apply_op L r (OpWithParam name v) = WithParam r name v"
| "apply_op L r (OpWithParams ps) = WithParams r ps"
| "apply_op L r (OpWithHeader h) = WithHeader L r h"
| "apply_op L r (OpWithContext c) = WithContext r c"
| "apply_op L r (OpWithTimeout d) = WithTimeout_req r d"
| "apply_op L r (OpWithMaxRetry n) = WithMaxRetry r n"
| "apply_op L r (OpWithRetryInterval d) = WithRetryInterval r d"
| "apply_op L r (OpSubResourcef sp args) = SubResourcef r sp args"
| "apply_op L r (OpBody b) = Body L r b"

definition body_fails :: "lib \<Rightarrow> op \<Rightarrow> bool" where
  "body_fails L x =
     (case x of
        OpBody (Some v) \<Rightarrow> (case json_Marshal L v of Inl e \<Rightarrow> True | Inr d \<Rightarrow> False)
      | _ \<Rightarrow> False)"

text \<open>
  The error of a \<open>Body\<close> call whose value does not serialise, and the error that \<open>r.err\<close>
  holds after a sequence of builder operations when it held \<open>e\<close> before: that of the
  last \<open>Body\<close> call in the sequence that failed, \<open>e\<close> when none did.
\<close>

definition body_error :: "lib \<Rightarrow> op \<Rightarrow> err option" where
  "body_error L x =
     (case x of
        OpBody (Some v) \<Rightarrow> (case json_Marshal L v of Inl e \<Rightarrow> Some e | Inr d \<Rightarrow> None)
      | _ \<Rightarrow> None)"

fun stored_error :: "lib \<Rightarrow> err \<Rightarrow> op list \<Rightarrow> err" where
  "stored_error L e [] = e"
| "stored_error L e (x # xs) =
     stored_error L (case body_error L x of None \<Rightarrow> e | Some e' \<Rightarrow> e') xs"

section \<open>Concrete inputs\<close>

text \<open>
  A decoder for the examples: it accepts the JSON text \<open>1\<close> for an int and rejects the
  text \<open>x\<close>, as \<open>encoding/json\<close> does (every other input is rejected here too).
\<close>

definition sample_decode :: json_decode where
  "sample_decode b t = (if b = ''1'' \<and> t = IntT then Inr (IntV 1)
                        else Inl (LibError ''invalid character''))"

definition result_404 :: result where
  "result_404 = \<lparr>result.body = ''1'', result.err = None, statusCode = 404\<rparr>"

definition result_failed :: result where
  "result_failed = \<lparr>result.body = [], result.err = Some ErrUnexpectedEOF, statusCode = 0\<rparr>"

definition result_v1_404 :: result_v1 where
  "result_v1_404 = \<lparr>body1 = ''1'', err1 = None, statusCode1 = 404, status1 = ''404 Not Found''\<rparr>"

definition result_v1_200 :: result_v1 where
  "result_v1_200 = \<lparr>body1 = ''x'', err1 = None, statusCode1 = 200, status1 = ''200 OK''\<rparr>"

definition result_v1_failed :: result_v1 where
  "result_v1_failed = \<lparr>body1 = [], err1 = Some ErrUnexpectedEOF, statusCode1 = 0, status1 = []\<rparr>"

text \<open>
  A library for the examples. It agrees with Go's on the inputs the examples use:
  \<^item> \<open>url.Parse\<close> on the empty string, on a string that starts with a colon (the error
    \<open>missing protocol scheme\<close>), and on a rooted path of letters, digits and slashes with
    an optional query;
  \<^item> \<open>URL.String\<close> on a URL that has only such a path and a query;
  \<^item> \<open>fmt.Sprintf\<close> on a format whose only verbs are \<open>%s\<close>, with as many strings;
  \<^item> \<open>json.Marshal\<close> on a boolean (its text), on a channel and on the float NaN (the
    two errors of \<open>encoding/json\<close>);
  \<^item> \<open>Duration.String\<close> at 5 seconds, 20 milliseconds and 0;
  \<^item> \<open>http.NewRequest\<close> with a valid method: it fails when the URL does not parse, and
    the empty string parses;
  \<^item> \<open>CanonicalMIMEHeaderKey\<close> on a key already in canonical form.
  The default client refuses every connection.
\<close>

definition sample_Parse :: "string \<Rightarrow> err + url" where
  "sample_Parse s =
     (if s \<noteq> [] \<and> hd s = CHR '':''
      then Inl (UrlError ''parse'' s (ErrorNew ''missing protocol scheme''))
      else Inr (empty_url\<lparr>Path := takeWhile (\<lambda>c. c \<noteq> CHR ''?'') s,
                           RawQuery := drop 1 (dropWhile (\<lambda>c. c \<noteq> CHR ''?'') s)\<rparr>))"

definition sample_String :: "url \<Rightarrow> string" where
  "sample_String u = Path u @ (if RawQuery u = [] then [] else ''?'' @ RawQuery u)"

fun sample_Sprintf :: "string \<Rightarrow> goval list \<Rightarrow> string" where
  "sample_Sprintf [] args = []"
| "sample_Sprintf [c] args = [c]"
| "sample_Sprintf (c # d # f) args =
     (if c = CHR ''%'' \<and> d = CHR ''s''
      then (case args of
              StrV s # rest \<Rightarrow> s @ sample_Sprintf f rest
            | _ \<Rightarrow> c # d # sample_Sprintf f args)
      else c # sample_Sprintf (d # f) args)"

definition sample_Marshal :: "goval \<Rightarrow> err + bytes" where
  "sample_Marshal v =
     (case v of
        BoolV b \<Rightarrow> Inr (if b then ''true'' else ''false'')
      | ChanV \<Rightarrow> Inl (LibError ''json: unsupported type: chan int'')
      | NaNV \<Rightarrow> Inl (LibError ''json: unsupported value: NaN'')
      | _ \<Rightarrow> Inr ''null'')"

definition sample_Duration_String :: "int \<Rightarrow> string" where
  "sample_Duration_String d =
     (if d = 5000000000 then ''5s'' else if d = 20000000 then ''20ms'' else ''0s'')"

definition connection_refused :: err where
  "connection_refused = OpError (SyscallError ''connect'' (Errno 111))"

definition sample_lib :: lib where
  "sample_lib =
     \<lparr>url_Parse = sample_Parse,
      url_String = sample_String,
      fmt_Sprintf = sample_Sprintf,
      json_Marshal = sample_Marshal,
      Duration_String = sample_Duration_String,
      http_NewRequest = (\<lambda>m u. case sample_Parse u of Inl e \<Rightarrow> Some e | Inr _ \<Rightarrow> None),
      DefaultClient = (\<lambda>w q. Inl (UrlError (w_method q) (w_url q) connection_refused)),
      CanonicalMIMEHeaderKey = (\<lambda>k. k)\<rparr>"

text \<open>Transports: one that resets every connection, one whose first response breaks off
  in the body and whose later responses are complete, and one that answers 200. (An error
  of \<open>client.Do\<close> is a \<open>*url.Error\<close> around the cause.)\<close>

definition connection_reset :: err where
  "connection_reset = OpError (SyscallError ''read'' (Errno ECONNRESET))"

definition reset_transport :: transport where
  "reset_transport w q = Inl (UrlError ''Get'' (w_url q) connection_reset)"

text \<open>A transport that resets the first three connections and answers 200 afterwards.\<close>

definition three_resets_transport :: transport where
  "three_resets_transport w q =
     (if length w < 3 then Inl (UrlError ''Get'' (w_url q) connection_reset)
      else Inr \<lparr>resp_StatusCode = 200, resp_Body = Some (Inr ''1'')\<rparr>)"


definition eof_once_transport :: transport where
  "eof_once_transport w q =
     (if w = [] then Inr \<lparr>resp_StatusCode = 200, resp_Body = Some (Inl ErrUnexpectedEOF)\<rparr>
      else Inr \<lparr>resp_StatusCode = 200, resp_Body = Some (Inr ''1'')\<rparr>)"

definition ok_transport :: transport where
  "ok_transport w q = Inr \<lparr>resp_StatusCode = 200, resp_Body = Some (Inr ''1'')\<rparr>"

text \<open>A transport that, like Go's, has no protocol for a URL without a scheme (here: the
  empty URL), and answers every other request.\<close>

definition scheme_transport :: transport where
  "scheme_transport w q =
     (if w_url q = [] then Inl (UrlError ''Get'' [] (LibError ''unsupported protocol scheme''))
      else Inr \<lparr>resp_StatusCode = 200, resp_Body = Some (Inr ''1'')\<rparr>)"

text \<open>Requests for the examples, as the verb factories build them.\<close>

definition get_request :: "transport \<Rightarrow> request" where
  "get_request t = Get (NewClient (Some t) ''/api'')"

definition post_request :: "transport \<Rightarrow> request" where
  "post_request t = Post (NewClient (Some t) ''/api'')"



definition page_request :: request where
  "page_request = WithParam (WithParam (get_request ok_transport) ''page'' ''3'') ''limit'' ''5''"

definition anonymous_request :: request where
  "anonymous_request = get_request ok_transport"

text \<open>Requests with a retry bound, with a body that does not serialise, with a malformed
  base URL; a sequence of builder calls; the wire request of \<open>anonymous_request\<close>.\<close>

definition three_resets_request :: request where
  "three_resets_request = WithMaxRetry (get_request three_resets_transport) 2"

definition failed_body_request :: request where
  "failed_body_request = WithMaxRetry (Body sample_lib (get_request reset_transport) (Some ChanV)) 2"

definition eof_post_request :: request where
  "eof_post_request = WithMaxRetry (post_request eof_once_transport) 1"

definition bad_url_request :: request where
  "bad_url_request = Get (NewClient (Some scheme_transport) '':'')"

definition bad_limit_request :: request where
  "bad_limit_request = limit_request (Get (NewClient (Some ok_transport) '':''))"



definition unserializable_request :: request where
  "unserializable_request = Body sample_lib (get_request ok_transport) (Some ChanV)"

definition later_ops :: "op list" where
  "later_ops =
     [OpWithParam ''limit'' ''10'', OpWithParams [(''a'', ''b'')], OpWithHeader None,
      OpWithContext (Some Background), OpWithTimeout 5000000000, OpWithMaxRetry 3,
      OpWithRetryInterval 20000000, OpSubResourcef ''/users'' [], OpBody None,
      OpBody (Some (BoolV True))]"

definition anonymous_wire :: wire where
  "anonymous_wire =
     \<lparr>w_method = ''GET'', w_url = ''/api'', w_body = [],
      w_header = [(''Content-Type'', [''application/json'']), (''Accept'', [''application/json'']),
                  (''Accept-Charset'', [''utf-8'']), (''Authorization'', [''Basic Og==''])],
      w_ctx = Background\<rparr>"

section \<open>Properties of Result\<close>

text \<open>
  C9. In the revision with the \<open>StatusCode\<close> accessor, for every Result and every non-nil
  pointer, the call leaves the caller's memory as it was (in particular the int the
  pointer points to), only rebinds its own parameter to the field's address, and returns
  the Result unmodified.
\<close>

theorem StatusCode_writes_nothing:
  "p \<noteq> NilPtr \<Longrightarrow> StatusCode r p mem = (r, ResultStatusCodeField, mem)"
  by (simp add: StatusCode_def)

theorem StatusCode_writes_nothing_witness:
  "Cell 0 \<noteq> NilPtr \<and> StatusCode result_404 (Cell 0) (\<lambda>_. 7) = (result_404, ResultStatusCodeField, (\<lambda>_. 7))"
  using StatusCode_writes_nothing [of "Cell 0" result_404 "\<lambda>_. 7"]
  by simp

text \<open>
  C4, as stated, fails in the earlier revision of \<open>Into\<close>: with no error stored and no
  target, a Result whose status is 404 is answered with the status error, not with
  success.
\<close>

theorem Into_v1_nil_target_status_counterexample:
  "err1 result_v1_404 = None \<and>
   Into_v1 sample_decode result_v1_404 None
     = (result_v1_404, Some (Errorf ''http response with status: %s'' [ArgStr ''404 Not Found'']), None)"
  by (simp add: Into_v1_def result_v1_404_def StatusOK_def)

text \<open>
  C4, amended. Both revisions of \<open>Into\<close> surface a stored error unchanged, whatever the
  target, decoding nothing. With no error stored and no target, the current revision
  returns success with nothing decoded, whatever the body, the status code and the
  decoder; the earlier revision does so when the status code is 200, and returns the
  status error otherwise.
\<close>

theorem Into_error_and_nil_target:
  "(result.err ra = Some e \<longrightarrow> Into dec ra obj = (ra, Some e, None)) \<and>
   (result.err rb = None \<longrightarrow> Into dec rb None = (rb, None, None)) \<and>
   (err1 rc = Some e1 \<longrightarrow> Into_v1 dec rc obj = (rc, Some e1, None)) \<and>
   (err1 rd = None \<and> statusCode1 rd = 200 \<longrightarrow> Into_v1 dec rd None = (rd, None, None)) \<and>
   (err1 re = None \<and> statusCode1 re \<noteq> 200 \<longrightarrow>
      Into_v1 dec re obj = (re, Some (Errorf ''http response with status: %s'' [ArgStr (status1 re)]), None))"
  by (simp add: Into_def Into_v1_def StatusOK_def)

theorem Into_error_and_nil_target_witness:
  "(result.err result_failed = Some ErrUnexpectedEOF \<and>
      Into sample_decode result_failed (Some IntT) = (result_failed, Some ErrUnexpectedEOF, None)) \<and>
   (result.err result_404 = None \<and> Into sample_decode result_404 None = (result_404, None, None)) \<and>
   (err1 result_v1_failed = Some ErrUnexpectedEOF \<and>
      Into_v1 sample_decode result_v1_failed (Some IntT) = (result_v1_failed, Some ErrUnexpectedEOF, None)) \<and>
   (err1 result_v1_200 = None \<and> statusCode1 result_v1_200 = 200 \<and>
      Into_v1 sample_decode result_v1_200 None = (result_v1_200, None, None)) \<and>
   (err1 result_v1_404 = None \<and> statusCode1 result_v1_404 \<noteq> 200 \<and>
      Into_v1 sample_decode result_v1_404 (Some IntT)
        = (result_v1_404, Some (Errorf ''http response with status: %s'' [ArgStr ''404 Not Found'']), None))"
  using Into_error_and_nil_target [of result_failed ErrUnexpectedEOF sample_decode "Some IntT"
      result_404 result_v1_failed ErrUnexpectedEOF result_v1_200 result_v1_404]
  by (simp add: result_failed_def result_404_def result_v1_failed_def result_v1_200_def result_v1_404_def)


section \<open>Multimaps and URL composition\<close>

lemma mm_get_put: "mm_get (mm_put m k vs) k' = (if k' = k then vs else mm_get m k')"
  by (simp add: mm_get_def mm_put_def update_conv')

lemma distinct_mm_put: "distinct (map fst m) \<Longrightarrow> distinct (map fst (mm_put m k vs))"
  by (simp add: mm_put_def distinct_update)

lemma mm_get_add_values:
  "mm_get (foldl (\<lambda>q' v. Values_Add q' key v) q vs) k = (if k = key then mm_get q k @ vs else mm_get q k)"
  by (induction vs arbitrary: q) (simp_all add: Values_Add_def mm_get_put)

lemma mm_get_Cons: "mm_get ((key, vs) # ps) k = (if k = key then vs else mm_get ps k)"
  by (simp add: mm_get_def)

lemma mm_get_absent: "k \<notin> fst ` set ps \<Longrightarrow> mm_get ps k = []"
  by (simp add: mm_get_def map_of_eq_None_iff[THEN iffD2])

lemma mm_get_add_all:
  "distinct (map fst ps) \<Longrightarrow>
   mm_get (foldl (\<lambda>q (key, vs). foldl (\<lambda>q' v. Values_Add q' key v) q vs) q ps) k = mm_get q k @ mm_get ps k"
proof (induction ps arbitrary: q)
  case Nil
  show ?case by (simp add: mm_get_def)
next
  case (Cons p ps)
  obtain key vs where p: "p = (key, vs)" by (cases p)
  from Cons.prems p have d: "distinct (map fst ps)" and nk: "key \<notin> fst ` set ps" by auto
  show ?case
    using Cons.IH [OF d] nk
    by (simp add: p mm_get_add_values mm_get_Cons mm_get_absent)
qed

lemma mm_get_Nil: "mm_get [] k = []"
  by (simp add: mm_get_def)

lemma wrapURL_query_get:
  assumes "distinct (map fst (params_map r))"
  shows "mm_get (wrapURL_query L r) k =
     (if timeout r \<noteq> 0 \<and> k = ''timeout'' then [Duration_String L (timeout r)]
      else mm_get (params_map r) k)"
  using mm_get_add_all [OF assms, of "[]" k]
  by (simp add: wrapURL_query_def Let_def Values_Set_def mm_get_put mm_get_Nil)

lemma wrapURL_RawQuery:
  assumes "baseURL r = [] \<or> url_Parse L (baseURL r) = Inr u"
  shows "RawQuery (fst (wrapURL L r)) = Values_Encode (wrapURL_query L r)"
  using assms by (auto simp: wrapURL_def Let_def)

lemma sublist_join: "x \<in> set xs \<Longrightarrow> sublist x (join sep xs)"
proof (induction sep xs rule: join.induct)
  case (3 sep x' y ys)
  show ?case
  proof (cases "x = x'")
    case True
    then show ?thesis by simp
  next
    case False
    with 3 have "sublist x (join sep (y # ys))" by simp
    then obtain ps ss where "join sep (y # ys) = ps @ x @ ss" by (auto simp: sublist_def)
    then have "join sep (x' # y # ys) = (x' @ sep @ ps) @ x @ ss" by simp
    then show ?thesis unfolding sublist_def by blast
  qed
qed simp_all

lemma encode_pairs_member:
  assumes "v \<in> set (mm_get m k)"
  shows "QueryEscape k @ ''='' @ QueryEscape v \<in> set (encode_pairs m)"
proof -
  from assms obtain vs where "map_of m k = Some vs" "v \<in> set vs"
    by (cases "map_of m k") (simp_all add: mm_get_def)
  then have "(k, vs) \<in> set m" by (auto dest: map_of_SomeD)
  with \<open>v \<in> set vs\<close> show ?thesis
    by (force simp: encode_pairs_def)
qed

lemma Values_Encode_contains:
  "v \<in> set (mm_get m k) \<Longrightarrow> sublist (QueryEscape k @ ''='' @ QueryEscape v) (Values_Encode m)"
  unfolding Values_Encode_def by (rule sublist_join) (rule encode_pairs_member)

lemma params_map_WithParam:
  "params_map (WithParam r name v) = mm_put (params_map r) name (mm_get (params_map r) name @ [v])"
  by (simp add: WithParam_def params_map_def Let_def)

lemma distinct_params_WithParam:
  "distinct (map fst (params_map r)) \<Longrightarrow> distinct (map fst (params_map (WithParam r name v)))"
  by (simp add: params_map_WithParam distinct_mm_put)

text \<open>Every request that the builder calls make from a factory's request has one entry
  for a key in its parameters, as a Go map has.\<close>

lemma distinct_fold_put:
  "distinct (map fst m) \<Longrightarrow>
   distinct (map fst (foldl (\<lambda>m (name, v). mm_put m name (mm_get m name @ [v])) m ps))"
proof (induction ps arbitrary: m)
  case (Cons p ps)
  obtain name v where p: "p = (name, v)" by (cases p)
  from Cons.prems have "distinct (map fst (mm_put m name (mm_get m name @ [v])))"
    by (rule distinct_mm_put)
  then show ?case by (simp add: p Cons.IH)
qed simp

lemma distinct_params_new_request: "distinct (map fst (params_map (new_request rc m)))"
  by (simp add: new_request_def params_map_def)

lemma distinct_params_apply_op:
  assumes "distinct (map fst (params_map r))"
  shows "distinct (map fst (params_map (apply_op L r x)))"
proof (cases x)
  case (OpWithParam name v)
  with assms show ?thesis by (simp add: distinct_params_WithParam)
next
  case (OpWithParams ps)
  with assms show ?thesis by (simp add: WithParams_def params_map_def distinct_fold_put)
next
  case (OpWithHeader h)
  with assms show ?thesis by (simp add: WithHeader_def params_map_def split: option.splits)
next
  case (OpBody b)
  with assms show ?thesis by (simp add: Body_def params_map_def split: option.splits sum.splits)
qed (use assms in \<open>simp_all add: WithContext_def WithTimeout_req_def WithMaxRetry_def
    WithRetryInterval_def SubResourcef_def subResource_def params_map_def\<close>)

lemma distinct_params_reachable:
  "distinct (map fst (params_map (foldl (apply_op L) (new_request rc m) ops)))"
proof -
  have "distinct (map fst (params_map r)) \<Longrightarrow> distinct (map fst (params_map (foldl (apply_op L) r ops)))" for r
    by (induction ops arbitrary: r) (simp_all add: distinct_params_apply_op)
  then show ?thesis by (simp add: distinct_params_new_request)
qed




lemma QueryEscape_limit: "QueryEscape ''limit'' = ''limit''" "QueryEscape ''10'' = ''10''" "QueryEscape ''20'' = ''20''"
  by code_simp+

text \<open>
  C7, as stated, fails for a base URL that does not parse: with the base URL \<open>:\<close>, after
  \<open>withParam("limit","10")\<close> and \<open>withParam("limit","20")\<close> the parameters hold both
  values, but \<open>wrapURL\<close> returns the empty URL (lines 142 to 146), whose query string
  contains neither.
\<close>

theorem malformed_base_URL_drops_limit_counterexample:
  "url_Parse sample_lib (baseURL bad_limit_request)
     = Inl (UrlError ''parse'' '':'' (ErrorNew ''missing protocol scheme'')) \<and>
   mm_get (params_map bad_limit_request) ''limit'' = [''10'', ''20''] \<and>
   fst (wrapURL sample_lib bad_limit_request) = empty_url \<and>
   RawQuery (fst (wrapURL sample_lib bad_limit_request)) = [] \<and>
   \<not> sublist ''limit=10'' (RawQuery (fst (wrapURL sample_lib bad_limit_request))) \<and>
   \<not> sublist ''limit=20'' (RawQuery (fst (wrapURL sample_lib bad_limit_request)))"
proof -
  have q: "RawQuery (fst (wrapURL sample_lib bad_limit_request)) = []" by code_simp
  have "url_Parse sample_lib (baseURL bad_limit_request)
     = Inl (UrlError ''parse'' '':'' (ErrorNew ''missing protocol scheme'')) \<and>
   mm_get (params_map bad_limit_request) ''limit'' = [''10'', ''20''] \<and>
   fst (wrapURL sample_lib bad_limit_request) = empty_url"
    by code_simp
  then show ?thesis by (simp add: q empty_url_def)
qed

text \<open>
  C7, amended. \<open>WithParam\<close> always appends the value to the values of the name and leaves
  every other name as it was. For every request whose base URL is empty or parses, after
  \<open>withParam("limit","10")\<close> and \<open>withParam("limit","20")\<close> the query string of the
  composed URL is the \<open>&\<close>-joined list of encoded pairs, \<open>limit=10\<close> and \<open>limit=20\<close> are
  both among the pairs, and both occur in the query string. (A map has one entry for a
  key: the hypothesis on the parameters.)
\<close>

theorem WithParam_appends:
  "mm_get (params_map (WithParam r name v)) k
     = (if k = name then mm_get (params_map r) k @ [v] else mm_get (params_map r) k) \<and>
   (distinct (map fst (params_map r)) \<and> (baseURL r = [] \<or> url_Parse L (baseURL r) = Inr u) \<longrightarrow>
      RawQuery (fst (wrapURL L (limit_request r))) = join ''&'' (encode_pairs (wrapURL_query L (limit_request r))) \<and>
      ''limit=10'' \<in> set (encode_pairs (wrapURL_query L (limit_request r))) \<and>
      ''limit=20'' \<in> set (encode_pairs (wrapURL_query L (limit_request r))) \<and>
      sublist ''limit=10'' (RawQuery (fst (wrapURL L (limit_request r)))) \<and>
      sublist ''limit=20'' (RawQuery (fst (wrapURL L (limit_request r)))))"
proof (intro conjI impI)
  show "mm_get (params_map (WithParam r name v)) k
     = (if k = name then mm_get (params_map r) k @ [v] else mm_get (params_map r) k)"
    by (simp add: params_map_WithParam mm_get_put)
next
  assume h: "distinct (map fst (params_map r)) \<and> (baseURL r = [] \<or> url_Parse L (baseURL r) = Inr u)"
  let ?r = "limit_request r"
  let ?q = "wrapURL_query L ?r"
  from h have d: "distinct (map fst (params_map ?r))"
    by (simp add: limit_request_def distinct_params_WithParam)
  have b: "baseURL ?r = baseURL r"
    by (simp add: limit_request_def WithParam_def Let_def)
  with h have p: "baseURL ?r = [] \<or> url_Parse L (baseURL ?r) = Inr u"
    by simp
  have "mm_get (params_map ?r) ''limit'' = mm_get (params_map r) ''limit'' @ [''10'', ''20'']"
    by (simp add: limit_request_def params_map_WithParam mm_get_put)
  then have g: "mm_get ?q ''limit'' = mm_get (params_map r) ''limit'' @ [''10'', ''20'']"
    by (simp add: wrapURL_query_get [OF d])
  have m1: "QueryEscape ''limit'' @ ''='' @ QueryEscape ''10'' \<in> set (encode_pairs ?q)"
    by (rule encode_pairs_member) (simp add: g)
  have m2: "QueryEscape ''limit'' @ ''='' @ QueryEscape ''20'' \<in> set (encode_pairs ?q)"
    by (rule encode_pairs_member) (simp add: g)
  show e: "RawQuery (fst (wrapURL L ?r)) = join ''&'' (encode_pairs ?q)"
    using wrapURL_RawQuery [OF p] by (simp add: Values_Encode_def)
  show i1: "''limit=10'' \<in> set (encode_pairs ?q)"
    using m1 by (simp add: QueryEscape_limit)
  show i2: "''limit=20'' \<in> set (encode_pairs ?q)"
    using m2 by (simp add: QueryEscape_limit)
  show "sublist ''limit=10'' (RawQuery (fst (wrapURL L ?r)))"
    unfolding e by (rule sublist_join [OF i1])
  show "sublist ''limit=20'' (RawQuery (fst (wrapURL L ?r)))"
    unfolding e by (rule sublist_join [OF i2])
qed

text \<open>Witness for C7: a request that already has \<open>page=3\<close> and \<open>limit=5\<close>.\<close>

theorem WithParam_appends_witness:
  "mm_get (params_map (WithParam page_request ''limit'' ''10'')) ''limit'' = [''5'', ''10''] \<and>
   distinct (map fst (params_map page_request)) \<and>
   url_Parse sample_lib (baseURL page_request) = Inr (empty_url\<lparr>Path := ''/api''\<rparr>) \<and>
   RawQuery (fst (wrapURL sample_lib (limit_request page_request))) = ''limit=5&limit=10&limit=20&page=3'' \<and>
   sublist ''limit=10'' (RawQuery (fst (wrapURL sample_lib (limit_request page_request)))) \<and>
   sublist ''limit=20'' (RawQuery (fst (wrapURL sample_lib (limit_request page_request))))"
proof -
  have p: "params_map page_request = [(''page'', [''3'']), (''limit'', [''5''])]"
    by code_simp
  have d: "distinct (map fst (params_map page_request))"
    by (simp add: p)
  have u: "url_Parse sample_lib (baseURL page_request) = Inr (empty_url\<lparr>Path := ''/api''\<rparr>)"
    by code_simp
  have e: "RawQuery (fst (wrapURL sample_lib (limit_request page_request))) = ''limit=5&limit=10&limit=20&page=3''"
    by code_simp
  have g: "mm_get (params_map page_request) ''limit'' = [''5'']"
    by (simp add: p mm_get_def)
  note t = WithParam_appends [of page_request "''limit''" "''10''" "''limit''" sample_lib
      "empty_url\<lparr>Path := ''/api''\<rparr>"]
  from t g have a: "mm_get (params_map (WithParam page_request ''limit'' ''10'')) ''limit'' = [''5'', ''10'']"
    by simp
  from t d u have s: "sublist ''limit=10'' (RawQuery (fst (wrapURL sample_lib (limit_request page_request)))) \<and>
    sublist ''limit=20'' (RawQuery (fst (wrapURL sample_lib (limit_request page_request))))"
    by blast
  from a d u e s show ?thesis by blast
qed

section \<open>What an attempt leaves unchanged\<close>

lemma same_config_refl: "same_config r r"
  by (simp add: same_config_def)

lemma same_config_trans: "same_config r r' \<Longrightarrow> same_config r' r'' \<Longrightarrow> same_config r r''"
proof -
  assume a: "same_config r r'" and b: "same_config r' r''"
  from a have "r' = r\<lparr>ctx := ctx r', err := err r'\<rparr>" by (simp add: same_config_def)
  moreover from b have "r'' = r'\<lparr>ctx := ctx r'', err := err r''\<rparr>" by (simp add: same_config_def)
  ultimately have "r'' = r\<lparr>ctx := ctx r', err := err r'\<rparr>\<lparr>ctx := ctx r'', err := err r''\<rparr>" by simp
  then have "r'' = r\<lparr>ctx := ctx r'', err := err r''\<rparr>" by simp
  then show ?thesis by (simp add: same_config_def)
qed

lemma same_config_update: "same_config r (r\<lparr>ctx := c\<rparr>)" "same_config r (r\<lparr>err := e\<rparr>)"
  by (simp_all add: same_config_def)

lemma same_config_wrapURL: "same_config r (snd (wrapURL L r))"
  by (simp add: wrapURL_def Let_def same_config_update same_config_refl split: sum.splits)

lemma same_config_derive_ctx: "same_config r (derive_ctx r)"
  by (simp add: derive_ctx_def same_config_update same_config_refl)

lemma same_config_run_cancelFn: "same_config r (run_cancelFn r)"
  by (simp add: run_cancelFn_def same_config_update same_config_refl)

lemma same_config_fields:
  assumes "same_config r r'"
  shows "r_method r' = r_method r" "client r' = client r" "retryCount r' = retryCount r"
    "timeout r' = timeout r" "body r' = body r" "username r' = username r" "password r' = password r"
    "header r' = header r" "params r' = params r" "baseURL r' = baseURL r"
    "subPath r' = subPath r" "subPathArgs r' = subPathArgs r"
proof -
  from assms have e: "r' = r\<lparr>ctx := ctx r', err := err r'\<rparr>" by (simp add: same_config_def)
  show "r_method r' = r_method r" by (subst e) simp
  show "client r' = client r" by (subst e) simp
  show "retryCount r' = retryCount r" by (subst e) simp
  show "timeout r' = timeout r" by (subst e) simp
  show "body r' = body r" by (subst e) simp
  show "username r' = username r" by (subst e) simp
  show "password r' = password r" by (subst e) simp
  show "header r' = header r" by (subst e) simp
  show "params r' = params r" by (subst e) simp
  show "baseURL r' = baseURL r" by (subst e) simp
  show "subPath r' = subPath r" by (subst e) simp
  show "subPathArgs r' = subPathArgs r" by (subst e) simp
qed

lemma same_config_wrapURL_url: "same_config r r' \<Longrightarrow> fst (wrapURL L r') = fst (wrapURL L r)"
  by (simp add: wrapURL_def wrapURL_query_def params_map_def Let_def same_config_fields split: sum.splits)

lemma same_config_header: "same_config r r' \<Longrightarrow> tryOnce_header r' = tryOnce_header r"
  by (simp add: tryOnce_header_def same_config_fields)

lemma same_config_client: "same_config r r' \<Longrightarrow> the_client L r' = the_client L r"
  by (simp add: the_client_def same_config_fields)

text \<open>What one attempt does to the request and to the world.\<close>

lemma tryOnce_same_config: "same_config r (fst (snd (snd (tryOnce L r w))))"
proof -
  have a: "same_config r (snd (wrapURL L r))" by (rule same_config_wrapURL)
  have b: "same_config r (run_cancelFn (derive_ctx (snd (wrapURL L r))))"
    by (rule same_config_trans [OF a same_config_trans [OF same_config_derive_ctx same_config_run_cancelFn]])
  show ?thesis
    using a b by (simp add: tryOnce_def Let_def case_prod_beta split: option.splits)
qed

lemma tryOnce_world:
  "snd (snd (snd (tryOnce L r w))) = w \<or>
   (\<exists>q. snd (snd (snd (tryOnce L r w))) = w @ [q] \<and> w_header q = tryOnce_header r)"
proof -
  have "tryOnce_header (derive_ctx (snd (wrapURL L r))) = tryOnce_header r"
    by (rule same_config_header [OF same_config_trans [OF same_config_wrapURL same_config_derive_ctx]])
  then show ?thesis
    by (simp add: tryOnce_def Let_def case_prod_beta split: option.splits)
qed

lemma mm_get_SetBasicAuth:
  "mm_get (SetBasicAuth h u p) ''Authorization'' = [''Basic '' @ basicAuth u p]"
  by (simp add: SetBasicAuth_def Header_Set_def mm_get_put)

text \<open>
  C6, as stated, fails: a request whose username and password are both empty is sent
  with an \<open>Authorization\<close> header, \<open>Basic Og==\<close> (the encoding of a lone colon).
\<close>

theorem empty_credentials_counterexample:
  "username anonymous_request = [] \<and> password anonymous_request = [] \<and>
   length (snd (snd (Do sample_lib anonymous_request []))) = 1 \<and>
   mm_get (w_header (hd (snd (snd (Do sample_lib anonymous_request []))))) ''Authorization'' = [''Basic Og=='']"
  by code_simp

text \<open>
  C6, amended. Every wire request that an attempt hands to the transport carries exactly
  one \<open>Authorization\<close> value, \<open>Basic\<close> and the base64 encoding of \<open>username:password\<close>,
  whether or not the credentials are empty: \<open>SetBasicAuth\<close> is called unconditionally.
\<close>

theorem tryOnce_sets_basic_auth:
  "snd (snd (snd (tryOnce L r w))) = w @ [q] \<Longrightarrow>
   mm_get (w_header q) ''Authorization'' = [''Basic '' @ basicAuth (username r) (password r)]"
  using tryOnce_world [of L r w]
  by (auto simp: tryOnce_header_def Let_def mm_get_SetBasicAuth)

text \<open>Witness for C6: the attempt of the request without credentials.\<close>

theorem tryOnce_sets_basic_auth_witness:
  "snd (snd (snd (tryOnce sample_lib anonymous_request []))) = [] @ [anonymous_wire] \<and>
   mm_get (w_header anonymous_wire) ''Authorization''
     = [''Basic '' @ basicAuth (username anonymous_request) (password anonymous_request)] \<and>
   basicAuth (username anonymous_request) (password anonymous_request) = ''Og==''"
proof -
  have w: "snd (snd (snd (tryOnce sample_lib anonymous_request []))) = [] @ [anonymous_wire]"
    by code_simp
  have b: "basicAuth (username anonymous_request) (password anonymous_request) = ''Og==''"
    by code_simp
  from tryOnce_sets_basic_auth [OF w] w b show ?thesis
    by simp
qed

section \<open>The retry loop\<close>

lemma classify_reset: "isConnectionReset e \<Longrightarrow> classify MethodGet (Inl e) = (new_result, True)"
  by (simp add: classify_def)

text \<open>The answers are those of the execution: an attempt's result is the classification of
  its answer, and the transport is invoked once for every answer that is not \<open>None\<close>.\<close>

lemma tryOnce_answer_None:
  "tryOnce_sent L r w = None \<Longrightarrow>
   snd (snd (snd (tryOnce L r w))) = w \<and> \<not> fst (snd (tryOnce L r w))"
  by (simp add: tryOnce_sent_def tryOnce_def Let_def case_prod_beta split: option.splits)

lemma tryOnce_answer_Some:
  assumes "tryOnce_sent L r w = Some a"
  shows "(\<exists>q. snd (snd (snd (tryOnce L r w))) = w @ [q]) \<and>
     fst (tryOnce L r w) = fst (classify (r_method r) a) \<and>
     fst (snd (tryOnce L r w)) = snd (classify (r_method r) a)"
proof -
  have "r_method (derive_ctx (snd (wrapURL L r))) = r_method r"
    by (rule same_config_fields [OF same_config_trans [OF same_config_wrapURL same_config_derive_ctx]])
  with assms show ?thesis
    by (auto simp: tryOnce_sent_def tryOnce_def Let_def case_prod_beta split: option.splits)
qed

lemma Do_loop_answers_count:
  "length (snd (snd (Do_loop L n rt r w)))
     = length w + length (filter (\<lambda>a. a \<noteq> None) (Do_loop_answers L n r w))"
proof (induction k \<equiv> "nat (retryCount r - n)" arbitrary: n rt r w)
  case 0
  then have "\<not> n < retryCount r" by simp
  then show ?case
    by (simp add: Do_loop.simps [of L n rt r w] Do_loop_answers.simps [of L n r w])
next
  case (Suc k)
  then have lt: "n < retryCount r" by linarith
  obtain rt' retry r' w' where t: "tryOnce L r w = (rt', retry, r', w')"
    by (cases "tryOnce L r w") auto
  have sc: "same_config r r'" using tryOnce_same_config [of r L w] by (simp add: t)
  have rc: "retryCount r' = retryCount r" by (rule same_config_fields [OF sc])
  have k: "k = nat (retryCount r' - (n + 1))" using Suc.hyps(2) rc by linarith
  have w': "length w' = length w + (if tryOnce_sent L r w = None then 0 else 1)"
  proof (cases "tryOnce_sent L r w")
    case None
    from tryOnce_answer_None [OF None] t show ?thesis by (simp add: None)
  next
    case (Some a)
    from tryOnce_answer_Some [OF Some] t show ?thesis by (auto simp: Some)
  qed
  show ?case
  proof (cases retry)
    case False
    with lt t w' show ?thesis
      by (simp add: Do_loop.simps [of L n rt r w] Do_loop_answers.simps [of L n r w])
  next
    case True
    have ih: "length (snd (snd (Do_loop L (n + 1) rt' r' w')))
        = length w' + length (filter (\<lambda>a. a \<noteq> None) (Do_loop_answers L (n + 1) r' w'))"
      by (rule Suc.hyps(1) [OF k])
    with True lt t w' show ?thesis
      by (simp add: Do_loop.simps [of L n rt r w] Do_loop_answers.simps [of L n r w])
  qed
qed

lemma attempts_answers:
  "attempts L r w = length (filter (\<lambda>a. a \<noteq> None) (Do_answers L r w))"
proof (cases "err r")
  case (Some e)
  then show ?thesis by (simp add: attempts_def Do_def Do_answers_def)
next
  case None
  obtain rt' retry r' w' where t: "tryOnce L r w = (rt', retry, r', w')"
    by (cases "tryOnce L r w") auto
  have w': "length w' = length w + (if tryOnce_sent L r w = None then 0 else 1)"
  proof (cases "tryOnce_sent L r w")
    case None
    from tryOnce_answer_None [OF None] t show ?thesis by (simp add: None)
  next
    case (Some a)
    from tryOnce_answer_Some [OF Some] t show ?thesis by (auto simp: Some)
  qed
  from None t w' Do_loop_answers_count [of L 0 rt' r' w'] show ?thesis
    by (simp add: attempts_def Do_def Do_answers_def)
qed

lemma tryOnce_reset_answer:
  assumes m: "r_method r = MethodGet" and a: "is_reset (tryOnce_sent L r w)"
  shows "\<exists>r' q. tryOnce L r w = (new_result, True, r', w @ [q])"
proof -
  let ?r1 = "snd (wrapURL L r)"
  let ?r2 = "derive_ctx ?r1"
  let ?u = "url_String L (fst (wrapURL L r))"
  have s1: "same_config r ?r1" by (rule same_config_wrapURL)
  have s2: "same_config r ?r2" by (rule same_config_trans [OF s1 same_config_derive_ctx])
  have m1: "r_method ?r1 = MethodGet" using m by (simp add: same_config_fields [OF s1])
  have m2: "r_method ?r2 = MethodGet" using m by (simp add: same_config_fields [OF s2])
  define q where "q = \<lparr>w_method = r_method ?r2, w_url = ?u, w_body = body ?r2,
                         w_header = tryOnce_header ?r2,
                         w_ctx = (case ctx ?r2 of None \<Rightarrow> Background | Some c \<Rightarrow> c)\<rparr>"
  from a have n: "http_NewRequest L (r_method ?r1) ?u = None"
    by (cases "http_NewRequest L (r_method ?r1) ?u")
       (simp_all add: tryOnce_sent_def is_reset_def Let_def case_prod_beta)
  with a have "is_reset (Some (the_client L ?r2 w q))"
    by (simp add: tryOnce_sent_def Let_def case_prod_beta q_def)
  then obtain e where e: "the_client L ?r2 w q = Inl e" "isConnectionReset e"
    by (cases "the_client L ?r2 w q") (simp_all add: is_reset_def)
  have "classify (r_method ?r2) (the_client L ?r2 w q) = (new_result, True)"
    using e by (simp add: m2 classify_reset)
  then have "tryOnce L r w = (new_result, True, run_cancelFn ?r2, w @ [q])"
    using n by (simp add: tryOnce_def Let_def case_prod_beta q_def)
  then show ?thesis by blast
qed

lemma Do_loop_all_reset:
  "r_method r = MethodGet \<Longrightarrow> list_all is_reset (Do_loop_answers L n r w) \<Longrightarrow>
   result.err (fst (Do_loop L n rt r w)) = Some (ErrorNew ''unexpected error'') \<and>
   length (snd (snd (Do_loop L n rt r w))) = length w + nat (retryCount r - n)"
proof (induction k \<equiv> "nat (retryCount r - n)" arbitrary: n rt r w)
  case 0
  then have nlt: "\<not> n < retryCount r" by simp
  then have "Do_loop L n rt r w = (rt\<lparr>result.err := Some (ErrorNew ''unexpected error'')\<rparr>, r, w)"
    by (subst Do_loop.simps) simp
  with 0 show ?case by simp
next
  case (Suc k)
  then have lt: "n < retryCount r" by linarith
  obtain rt1 retry r' w' where t0: "tryOnce L r w = (rt1, retry, r', w')"
    by (cases "tryOnce L r w") auto
  from Suc.prems(2) lt t0 have a: "is_reset (tryOnce_sent L r w)"
    by (simp add: Do_loop_answers.simps [of L n r w])
  from tryOnce_reset_answer [OF Suc.prems(1) a] t0 obtain q where
    t: "tryOnce L r w = (new_result, True, r', w @ [q])" by auto
  from Suc.prems(2) lt t have rest: "list_all is_reset (Do_loop_answers L (n + 1) r' (w @ [q]))"
    by (simp add: Do_loop_answers.simps [of L n r w])
  have sc: "same_config r r'" using tryOnce_same_config [of r L w] by (simp add: t)
  have rc: "retryCount r' = retryCount r" by (rule same_config_fields [OF sc])
  have m': "r_method r' = MethodGet" using Suc.prems(1) by (simp add: same_config_fields [OF sc])
  have k: "k = nat (retryCount r' - (n + 1))" using Suc.hyps(2) rc by linarith
  have step: "Do_loop L n rt r w = Do_loop L (n + 1) new_result r' (w @ [q])"
    using lt t by (simp add: Do_loop.simps [of L n rt r w])
  have ih: "result.err (fst (Do_loop L (n + 1) new_result r' (w @ [q]))) = Some (ErrorNew ''unexpected error'') \<and>
      length (snd (snd (Do_loop L (n + 1) new_result r' (w @ [q]))))
        = length (w @ [q]) + nat (retryCount r' - (n + 1))"
    by (rule Suc.hyps(1) [OF k m' rest])
  from ih rc lt show ?case
    by (simp add: step)
qed

lemma Do_loop_bound:
  "length w \<le> length (snd (snd (Do_loop L n rt r w))) \<and>
   length (snd (snd (Do_loop L n rt r w))) \<le> length w + nat (retryCount r - n)"
proof (induction k \<equiv> "nat (retryCount r - n)" arbitrary: n rt r w)
  case 0
  then have "\<not> n < retryCount r" by simp
  then show ?case by (simp add: Do_loop.simps [of L n rt r w])
next
  case (Suc k)
  then have lt: "n < retryCount r" by linarith
  obtain rt' retry r' w' where t: "tryOnce L r w = (rt', retry, r', w')"
    by (cases "tryOnce L r w") auto
  have sc: "same_config r r'" using tryOnce_same_config [of r L w] by (simp add: t)
  have rc: "retryCount r' = retryCount r" by (rule same_config_fields [OF sc])
  have k: "k = nat (retryCount r' - (n + 1))" using Suc.hyps(2) rc by linarith
  have w': "w' = w \<or> (\<exists>q. w' = w @ [q])" using tryOnce_world [of L r w] by (auto simp: t)
  show ?case
  proof (cases retry)
    case False
    then have "Do_loop L n rt r w = (rt', r', w')"
      using lt t by (simp add: Do_loop.simps [of L n rt r w])
    with w' lt show ?thesis by auto
  next
    case True
    then have step: "Do_loop L n rt r w = Do_loop L (n + 1) rt' r' w'"
      using lt t by (simp add: Do_loop.simps [of L n rt r w])
    from w' have l: "length w \<le> length w' \<and> length w' \<le> length w + 1" by auto
    have ih: "length w' \<le> length (snd (snd (Do_loop L (n + 1) rt' r' w'))) \<and>
      length (snd (snd (Do_loop L (n + 1) rt' r' w'))) \<le> length w' + nat (retryCount r' - (n + 1))"
      by (rule Suc.hyps(1) [OF k])
    from ih l lt rc show ?thesis
      by (simp add: step) linarith
  qed
qed

lemma attempts_bound: "attempts L r w \<le> nat (retryCount r) + 1"
proof (cases "err r")
  case (Some e)
  then show ?thesis by (simp add: attempts_def Do_def)
next
  case None
  obtain rt' retry r' w' where t: "tryOnce L r w = (rt', retry, r', w')"
    by (cases "tryOnce L r w") auto
  have sc: "same_config r r'" using tryOnce_same_config [of r L w] by (simp add: t)
  have rc: "retryCount r' = retryCount r" by (rule same_config_fields [OF sc])
  have w': "w' = w \<or> (\<exists>q. w' = w @ [q])" using tryOnce_world [of L r w] by (auto simp: t)
  then have l: "length w \<le> length w' \<and> length w' \<le> length w + 1" by auto
  show ?thesis
  proof (cases retry)
    case False
    then have "Do L r w = (rt', r', w')" using None t by (simp add: Do_def)
    with l show ?thesis by (simp add: attempts_def) linarith
  next
    case True
    then have "Do L r w = Do_loop L 0 rt' r' w'" using None t by (simp add: Do_def)
    moreover have "length w' \<le> length (snd (snd (Do_loop L 0 rt' r' w'))) \<and>
      length (snd (snd (Do_loop L 0 rt' r' w'))) \<le> length w' + nat (retryCount r' - 0)"
      by (rule Do_loop_bound)
    ultimately show ?thesis using l rc by (simp add: attempts_def) linarith
  qed
qed

text \<open>
  C1, as stated, fails for a request whose construction error is set: \<open>Do\<close> returns at
  line 176 before the first attempt. Here a GET request with the retry bound 2, whose
  body did not serialise, on a transport that resets every connection: no attempt, so
  the transport is invoked 0 times, not 3, and the Result carries the serialisation
  error, not \<open>unexpected error\<close>.
\<close>

theorem construction_error_no_attempt_counterexample:
  "r_method failed_body_request = MethodGet \<and> retryCount failed_body_request = 2 \<and>
   the_client sample_lib failed_body_request [] anonymous_wire
     = Inl (UrlError ''Get'' ''/api'' connection_reset) \<and>
   Do_answers sample_lib failed_body_request [] = [] \<and>
   attempts sample_lib failed_body_request [] = 0 \<and>
   result.err (fst (Do sample_lib failed_body_request []))
     = Some (LibError ''json: unsupported type: chan int'')"
  by code_simp

text \<open>
  C1, amended. No execution performs more than \<open>retryBound + 1\<close> attempts. For every GET
  request with no construction error set, if on every attempt the transport yields a
  connection-reset error, \<open>Do\<close> invokes the transport exactly \<open>retryBound + 1\<close> times and
  the Result carries the error \<open>unexpected error\<close>. (The retry bound is \<open>r.retryCount\<close>,
  a non-negative integer in the specification; \<open>nat\<close> reads it as a natural number.)
\<close>

theorem Do_exhausts_retries:
  "attempts L r w \<le> nat (retryCount r) + 1 \<and>
   (r_method r = MethodGet \<and> err r = None \<and> list_all is_reset (Do_answers L r w) \<longrightarrow>
      attempts L r w = nat (retryCount r) + 1 \<and>
      result.err (fst (Do L r w)) = Some (ErrorNew ''unexpected error''))"
proof (intro conjI impI)
  show "attempts L r w \<le> nat (retryCount r) + 1" by (rule attempts_bound)
next
  assume h: "r_method r = MethodGet \<and> err r = None \<and> list_all is_reset (Do_answers L r w)"
  obtain rt1 retry r' w' where t0: "tryOnce L r w = (rt1, retry, r', w')"
    by (cases "tryOnce L r w") auto
  from h t0 have a: "is_reset (tryOnce_sent L r w)" by (auto simp: Do_answers_def)
  from h have m: "r_method r = MethodGet" by simp
  from tryOnce_reset_answer [OF m a] t0 obtain q where
    t: "tryOnce L r w = (new_result, True, r', w @ [q])" by auto
  from h t have rest: "list_all is_reset (Do_loop_answers L 0 r' (w @ [q]))"
    by (auto simp: Do_answers_def)
  have sc: "same_config r r'" using tryOnce_same_config [of r L w] by (simp add: t)
  have rc: "retryCount r' = retryCount r" by (rule same_config_fields [OF sc])
  have m': "r_method r' = MethodGet" using m by (simp add: same_config_fields [OF sc])
  have d: "Do L r w = Do_loop L 0 new_result r' (w @ [q])" using h t by (simp add: Do_def)
  have lp: "result.err (fst (Do_loop L 0 new_result r' (w @ [q]))) = Some (ErrorNew ''unexpected error'') \<and>
      length (snd (snd (Do_loop L 0 new_result r' (w @ [q]))))
        = length (w @ [q]) + nat (retryCount r' - 0)"
    by (rule Do_loop_all_reset [OF m' rest])
  from lp show "result.err (fst (Do L r w)) = Some (ErrorNew ''unexpected error'')"
    by (simp add: d)
  from lp rc show "attempts L r w = nat (retryCount r) + 1"
    by (simp add: d attempts_def)
qed

text \<open>
  Witness for C1: the retry bound 2 and a transport that resets the first three
  connections only; three attempts, each answered with a reset.
\<close>

theorem Do_exhausts_retries_witness:
  "r_method three_resets_request = MethodGet \<and> err three_resets_request = None \<and>
   retryCount three_resets_request = 2 \<and>
   Do_answers sample_lib three_resets_request []
     = [Some (Inl (UrlError ''Get'' ''/api'' connection_reset)),
        Some (Inl (UrlError ''Get'' ''/api'' connection_reset)),
        Some (Inl (UrlError ''Get'' ''/api'' connection_reset))] \<and>
   isConnectionReset (UrlError ''Get'' ''/api'' connection_reset) \<and>
   attempts sample_lib three_resets_request [] = 3 \<and>
   result.err (fst (Do sample_lib three_resets_request [])) = Some (ErrorNew ''unexpected error'')"
proof -
  have m: "r_method three_resets_request = MethodGet" by code_simp
  have e: "err three_resets_request = None" by code_simp
  have c: "retryCount three_resets_request = 2" by code_simp
  have a: "Do_answers sample_lib three_resets_request []
     = [Some (Inl (UrlError ''Get'' ''/api'' connection_reset)),
        Some (Inl (UrlError ''Get'' ''/api'' connection_reset)),
        Some (Inl (UrlError ''Get'' ''/api'' connection_reset))]"
    by code_simp
  have i: "isConnectionReset (UrlError ''Get'' ''/api'' connection_reset)"
    by (simp add: isConnectionReset_def connection_reset_def)
  have l: "list_all is_reset (Do_answers sample_lib three_resets_request [])"
    by (simp add: a is_reset_def i)
  from Do_exhausts_retries [of sample_lib three_resets_request "[]"] m e l c
  have "attempts sample_lib three_resets_request [] = 3 \<and>
    result.err (fst (Do sample_lib three_resets_request [])) = Some (ErrorNew ''unexpected error'')"
    by simp
  with m e c a i show ?thesis by simp
qed

text \<open>On the transport-error path a request that is not a GET is never retried: one
  attempt, and the transport's error in the Result.\<close>

lemma classify_non_GET:
  "m \<noteq> MethodGet \<Longrightarrow> classify m (Inl e) = (new_result\<lparr>result.err := Some e\<rparr>, False)"
  by (simp add: classify_def)

lemma Do_non_GET_transport_error:
  assumes m: "r_method r \<noteq> MethodGet" and e: "err r = None"
    and n: "http_NewRequest L (r_method r) (url_String L (fst (wrapURL L r))) = None"
    and t: "\<forall>q. \<exists>e. the_client L r w q = Inl e"
  shows "attempts L r w = 1 \<and> result.err (fst (Do L r w)) \<noteq> None"
proof -
  let ?r1 = "snd (wrapURL L r)"
  let ?r2 = "derive_ctx ?r1"
  have s1: "same_config r ?r1" by (rule same_config_wrapURL)
  have s2: "same_config r ?r2" by (rule same_config_trans [OF s1 same_config_derive_ctx])
  have m1: "r_method ?r1 = r_method r" by (rule same_config_fields [OF s1])
  have m2: "r_method ?r2 = r_method r" by (rule same_config_fields [OF s2])
  have c: "the_client L ?r2 = the_client L r" by (rule same_config_client [OF s2])
  define q where "q = \<lparr>w_method = r_method ?r2, w_url = url_String L (fst (wrapURL L r)), w_body = body ?r2,
                         w_header = tryOnce_header ?r2,
                         w_ctx = (case ctx ?r2 of None \<Rightarrow> Background | Some c \<Rightarrow> c)\<rparr>"
  from t obtain e' where e': "the_client L r w q = Inl e'" by blast
  have "classify (r_method ?r2) (the_client L ?r2 w q) = (new_result\<lparr>result.err := Some e'\<rparr>, False)"
    using m by (simp add: m2 c e' classify_non_GET)
  then have "tryOnce L r w = (new_result\<lparr>result.err := Some e'\<rparr>, False, run_cancelFn ?r2, w @ [q])"
    using n by (simp add: tryOnce_def Let_def case_prod_beta q_def m1)
  then have "Do L r w = (new_result\<lparr>result.err := Some e'\<rparr>, run_cancelFn ?r2, w @ [q])"
    using e by (simp add: Do_def)
  then show ?thesis by (simp add: attempts_def)
qed

text \<open>
  C2 fails on the code at this input: a POST request with one retry allowed, whose first
  response breaks off in the body (\<open>io.ErrUnexpectedEOF\<close>), is sent a second time:
  only the transport-error path checks the method.
\<close>

theorem post_unexpected_EOF_is_retried:
  "r_method eof_post_request = MethodPost \<and> retryCount eof_post_request = 1 \<and>
   attempts sample_lib eof_post_request [] = 2 \<and>
   fst (Do sample_lib eof_post_request []) = \<lparr>result.body = ''1'', result.err = None, statusCode = 200\<rparr>"
  by code_simp

text \<open>
  C3 fails on the code at this input: the base URL \<open>:\<close> does not parse, \<open>wrapURL\<close> records
  the error on the request and returns the empty URL, and \<open>tryOnce\<close> goes on without
  looking at \<open>r.err\<close>: the transport is invoked with the empty URL, and the Result carries
  the transport's error, not the parse error. Only a second \<open>Do\<close> on the same request
  returns the parse error without invoking the transport.
\<close>

theorem malformed_base_URL_reaches_transport:
  "url_Parse sample_lib (baseURL bad_url_request)
     = Inl (UrlError ''parse'' '':'' (ErrorNew ''missing protocol scheme'')) \<and>
   err bad_url_request = None \<and>
   attempts sample_lib bad_url_request [] = 1 \<and>
   map w_url (snd (snd (Do sample_lib bad_url_request []))) = [[]] \<and>
   result.err (fst (Do sample_lib bad_url_request []))
     = Some (UrlError ''Get'' [] (LibError ''unsupported protocol scheme'')) \<and>
   err (fst (snd (Do sample_lib bad_url_request [])))
     = Some (UrlError ''parse'' '':'' (ErrorNew ''missing protocol scheme'')) \<and>
   attempts sample_lib (fst (snd (Do sample_lib bad_url_request [])))
       (snd (snd (Do sample_lib bad_url_request []))) = 0 \<and>
   result.err (fst (Do sample_lib (fst (snd (Do sample_lib bad_url_request [])))
       (snd (snd (Do sample_lib bad_url_request [])))))
     = Some (UrlError ''parse'' '':'' (ErrorNew ''missing protocol scheme''))"
  by code_simp

section \<open>The construction error\<close>

lemma body_fails_error: "body_fails L x \<longleftrightarrow> body_error L x \<noteq> None"
  by (simp add: body_fails_def body_error_def split: op.splits option.splits sum.splits)

lemma err_Body_fails: "json_Marshal L v = Inl e' \<Longrightarrow> err (Body L r (Some v)) = Some e'"
  by (simp add: Body_def)

lemma apply_op_err_exact:
  "err (apply_op L r x) = (case body_error L x of None \<Rightarrow> err r | Some e' \<Rightarrow> Some e')"
proof (cases x)
  case (OpBody b)
  then show ?thesis
    by (simp add: Body_def body_error_def split: option.splits sum.splits)
next
  case (OpWithHeader h)
  then show ?thesis by (simp add: WithHeader_def body_error_def split: option.splits)
qed (simp_all add: WithParam_def WithParams_def WithContext_def WithTimeout_req_def
    WithMaxRetry_def WithRetryInterval_def SubResourcef_def subResource_def Let_def body_error_def)

lemma apply_ops_err_exact:
  "err r = Some e \<Longrightarrow> err (foldl (apply_op L) r ops) = Some (stored_error L e ops)"
proof (induction ops arbitrary: r e)
  case Nil
  then show ?case by simp
next
  case (Cons x ops)
  have "err (apply_op L r x) = Some (case body_error L x of None \<Rightarrow> e | Some e' \<Rightarrow> e')"
    using Cons.prems by (simp add: apply_op_err_exact split: option.splits)
  from Cons.IH [OF this] show ?case by simp
qed

lemma stored_error_same:
  "\<forall>x \<in> set ops. \<not> body_fails L x \<Longrightarrow> stored_error L e ops = e"
  by (induction ops arbitrary: e) (simp_all add: body_fails_error)

lemma stored_error_snoc:
  "stored_error L e (ops @ [x]) = (case body_error L x of None \<Rightarrow> stored_error L e ops | Some e' \<Rightarrow> e')"
  by (induction ops arbitrary: e) (simp_all split: option.splits)

lemma Do_short_circuit: "err r = Some e \<Longrightarrow> Do L r w = (new_result\<lparr>result.err := Some e\<rparr>, r, w)"
  by (simp add: Do_def)

text \<open>
  C5, as stated, fails: after a first body that does not serialise (a channel), a second
  one (NaN) replaces the stored error with its own, and \<open>Do\<close> returns the second error.
\<close>

theorem later_body_failure_counterexample:
  "err unserializable_request = Some (LibError ''json: unsupported type: chan int'') \<and>
   result.err (fst (Do sample_lib (Body sample_lib unserializable_request (Some NaNV)) []))
     = Some (LibError ''json: unsupported value: NaN'') \<and>
   attempts sample_lib (Body sample_lib unserializable_request (Some NaNV)) [] = 0"
  by code_simp

text \<open>
  C5, amended. Once the construction error is set, no sequence of builder operations
  clears it: every operation leaves it as it is, except a \<open>Body\<close> call whose value does
  not serialise, which replaces it with its own error. So after the sequence the field
  holds the error of the last such \<open>Body\<close> call, or the original error when there was
  none; \<open>Do\<close> then returns the stored error without invoking the transport, leaving request
  and world as they were (so every later \<open>Do\<close> does the same).
\<close>

theorem construction_error_short_circuits:
  "err r = Some e \<Longrightarrow>
   err (foldl (apply_op L) r ops) = Some (stored_error L e ops) \<and>
   Do L (foldl (apply_op L) r ops) w
     = (new_result\<lparr>result.err := Some (stored_error L e ops)\<rparr>, foldl (apply_op L) r ops, w) \<and>
   attempts L (foldl (apply_op L) r ops) w = 0 \<and>
   ((\<forall>x \<in> set ops. \<not> body_fails L x) \<longrightarrow> stored_error L e ops = e) \<and>
   (json_Marshal L v = Inl e' \<longrightarrow>
      err (Body L (foldl (apply_op L) r ops) (Some v)) = Some e' \<and>
      stored_error L e (ops @ [OpBody (Some v)]) = e') \<and>
   (\<not> body_fails L x \<longrightarrow> stored_error L e (ops @ [x]) = stored_error L e ops)"
proof -
  assume e: "err r = Some e"
  let ?r = "foldl (apply_op L) r ops"
  have s: "err ?r = Some (stored_error L e ops)" by (rule apply_ops_err_exact [OF e])
  have d: "Do L ?r w = (new_result\<lparr>result.err := Some (stored_error L e ops)\<rparr>, ?r, w)"
    by (rule Do_short_circuit [OF s])
  have a: "attempts L ?r w = 0" by (simp add: attempts_def d)
  have n: "(\<forall>x \<in> set ops. \<not> body_fails L x) \<longrightarrow> stored_error L e ops = e"
    by (simp add: stored_error_same)
  have b: "json_Marshal L v = Inl e' \<longrightarrow>
      err (Body L ?r (Some v)) = Some e' \<and> stored_error L e (ops @ [OpBody (Some v)]) = e'"
    by (simp add: err_Body_fails stored_error_snoc body_error_def)
  have k: "\<not> body_fails L x \<longrightarrow> stored_error L e (ops @ [x]) = stored_error L e ops"
    by (simp add: stored_error_snoc body_fails_error)
  from s d a n b k show ?thesis by blast
qed

text \<open>Witness for C5: ten builder calls after a body that does not serialise, then a
  second body that does not.\<close>

theorem construction_error_short_circuits_witness:
  "err unserializable_request = Some (LibError ''json: unsupported type: chan int'') \<and>
   body unserializable_request = [] \<and>
   filter (body_fails sample_lib) later_ops = [] \<and>
   err (foldl (apply_op sample_lib) unserializable_request later_ops)
     = Some (LibError ''json: unsupported type: chan int'') \<and>
   fst (Do sample_lib (foldl (apply_op sample_lib) unserializable_request later_ops) [])
     = \<lparr>result.body = [], result.err = Some (LibError ''json: unsupported type: chan int''), statusCode = 0\<rparr> \<and>
   snd (snd (Do sample_lib (foldl (apply_op sample_lib) unserializable_request later_ops) [])) = [] \<and>
   attempts sample_lib (foldl (apply_op sample_lib) unserializable_request later_ops) [] = 0 \<and>
   json_Marshal sample_lib NaNV = Inl (LibError ''json: unsupported value: NaN'') \<and>
   err (Body sample_lib (foldl (apply_op sample_lib) unserializable_request later_ops) (Some NaNV))
     = Some (LibError ''json: unsupported value: NaN'') \<and>
   body_fails sample_lib (OpWithMaxRetry 1) = False \<and>
   stored_error sample_lib (LibError ''json: unsupported type: chan int'') (later_ops @ [OpWithMaxRetry 1])
     = LibError ''json: unsupported type: chan int''"
proof -
  have e: "err unserializable_request = Some (LibError ''json: unsupported type: chan int'')"
    by code_simp
  have b: "body unserializable_request = []"
    by code_simp
  have n: "\<forall>x \<in> set later_ops. \<not> body_fails sample_lib x"
    by code_simp
  have f: "filter (body_fails sample_lib) later_ops = []"
    by code_simp
  have m: "json_Marshal sample_lib NaNV = Inl (LibError ''json: unsupported value: NaN'')"
    by code_simp
  have x: "\<not> body_fails sample_lib (OpWithMaxRetry 1)"
    by code_simp
  note t = construction_error_short_circuits [OF e, of sample_lib later_ops "[]" NaNV
      "LibError ''json: unsupported value: NaN''" "OpWithMaxRetry 1"]
  from t n have s: "stored_error sample_lib (LibError ''json: unsupported type: chan int'') later_ops
     = LibError ''json: unsupported type: chan int''"
    by blast
  from t m have r: "err (Body sample_lib (foldl (apply_op sample_lib) unserializable_request later_ops) (Some NaNV))
     = Some (LibError ''json: unsupported value: NaN'')"
    by blast
  from t x have k: "stored_error sample_lib (LibError ''json: unsupported type: chan int'') (later_ops @ [OpWithMaxRetry 1])
     = stored_error sample_lib (LibError ''json: unsupported type: chan int'') later_ops"
    by blast
  from t s e b f m r x k show ?thesis
    by (simp add: new_result_def)
qed

end
